theory Spec2Isabelle
  imports Main "HOL-Library.Signed_Division"
begin

section \<open>Conway's Game of Life: the simulation engine\<close>

text \<open>
  A shallow embedding of \<^verbatim>\<open>src/game.ts\<close> (grid operations), \<^verbatim>\<open>src/config.ts\<close>,
  \<^verbatim>\<open>src/types.ts\<close>, and of the session commands of \<^verbatim>\<open>src/main.ts\<close> and
  \<^verbatim>\<open>src/input.ts\<close>. JavaScript numbers that the code uses as indices, counters and
  millisecond intervals are modelled as \<open>int\<close> (fractions and NaN are outside the model).
\<close>

subsection \<open>Data model (types.ts, config.ts)\<close>

text \<open>\<^verbatim>\<open>type CellState = 0 | 1\<close>: 0 is dead, 1 is alive.\<close>

datatype CellState = Dead | Alive

text \<open>
  \<^verbatim>\<open>type Grid = CellState[][]\<close>. The code defends itself against rows that are not
  arrays (\<^verbatim>\<open>Array.isArray\<close>, optional chaining), so a row of the model is
  \<open>Some cells\<close> for an array and \<open>None\<close> for a value that is not one (\<^verbatim>\<open>undefined\<close>).
  Rows may have different lengths.
\<close>

type_synonym Row = "CellState list option"
type_synonym Grid = "Row list"

datatype SimulationStatus = Running | Paused | Stopped

text \<open>The run-time errors the modelled code can throw.\<close>

datatype error = TypeError | RangeError

text \<open>What \<^verbatim>\<open>setCellState\<close> writes with \<^verbatim>\<open>console.warn\<close>: row, col, numRows, expectedNumCols.\<close>

datatype ConsoleEntry = WarnOutOfBounds int int int int

record Pattern =
  name :: string
  data :: "(int \<times> int) list"
  width :: int
  height :: int

text \<open>The fields of \<^verbatim>\<open>CONFIG\<close> that the engine reads.\<close>

definition initialGridRows :: int where "initialGridRows = 50"
definition initialGridCols :: int where "initialGridCols = 70"
definition defaultSimulationIntervalMs :: int where "defaultSimulationIntervalMs = 200"
definition minSimulationIntervalMs :: int where "minSimulationIntervalMs = 50"
definition maxSimulationIntervalMs :: int where "maxSimulationIntervalMs = 1000"

subsection \<open>Array helpers\<close>

text \<open>\<^verbatim>\<open>xs.map((x, i) => f(x, i))\<close>.\<close>

definition mapWithIndex :: "('a \<Rightarrow> nat \<Rightarrow> 'b) \<Rightarrow> 'a list \<Rightarrow> 'b list" where
  "mapWithIndex f xs = map (\<lambda>(i, x). f x i) (enumerate 0 xs)"

text \<open>
  \<^verbatim>\<open>grid[r]?.[c]\<close>: \<open>None\<close> is \<^verbatim>\<open>undefined\<close> (no such row, a row that is not an array,
  or no such column).
\<close>

definition cellAt :: "Grid \<Rightarrow> int \<Rightarrow> int \<Rightarrow> CellState option" where
  "cellAt grid r c =
     (if r < 0 \<or> int (length grid) \<le> r then None
      else case grid ! nat r of
             None \<Rightarrow> None
           | Some cells \<Rightarrow>
               if c < 0 \<or> int (length cells) \<le> c then None else Some (cells ! nat c))"

text \<open>
  \<^verbatim>\<open>grid[0]?.length ?? CONFIG.initialGridCols\<close>, as \<^verbatim>\<open>setCellState\<close> and
  \<^verbatim>\<open>loadPattern\<close> compute it: the length of row 0 when row 0 is an array, the
  configured column count when the grid is empty or row 0 is not an array.
\<close>

definition expectedNumCols :: "Grid \<Rightarrow> int" where
  "expectedNumCols grid =
     (case grid of
        Some cells # _ \<Rightarrow> int (length cells)
      | _ \<Rightarrow> initialGridCols)"

subsection \<open>Normalisation of a row (game.ts, inlined in setCellState and loadPattern)\<close>

text \<open>
  Both functions map the same arrow function over the grid:
  \<^verbatim>\<open>
  let sanitizedRow = Array.isArray(currentRowArray) ? [...currentRowArray]
                                                    : Array(expectedNumCols).fill(0);
  if (sanitizedRow.length < expectedNumCols) {
    const oldContent = [...sanitizedRow];
    sanitizedRow = Array(expectedNumCols).fill(0);
    oldContent.forEach((val, i) => sanitizedRow[i] = val);
  } else if (sanitizedRow.length > expectedNumCols) {
    sanitizedRow = sanitizedRow.slice(0, expectedNumCols);
  }
  return sanitizedRow;
  \<close>
  It is only reached with \<open>0 \<le> expectedNumCols\<close> (a length, or 70). In the padding
  branch every index written is below the new length, so the assignment never extends
  the array and \<open>list_update\<close> is the assignment.
\<close>

definition sanitizeRow :: "int \<Rightarrow> Row \<Rightarrow> CellState list" where
  "sanitizeRow expectedCols currentRowArray =
     (let sanitizedRow =
            (case currentRowArray of
               Some cells \<Rightarrow> cells
             | None \<Rightarrow> replicate (nat expectedCols) Dead)
      in if int (length sanitizedRow) < expectedCols then
           fold (\<lambda>(i, val) acc. acc[i := val]) (enumerate 0 sanitizedRow)
                (replicate (nat expectedCols) Dead)
         else if expectedCols < int (length sanitizedRow) then
           take (nat expectedCols) sanitizedRow
         else sanitizedRow)"

subsection \<open>setCellState (game.ts)\<close>

text \<open>The bounds check of \<^verbatim>\<open>setCellState\<close>.\<close>

definition outOfBounds :: "Grid \<Rightarrow> int \<Rightarrow> int \<Rightarrow> bool" where
  "outOfBounds grid row col =
     (row < 0 \<or> int (length grid) \<le> row \<or> col < 0 \<or> expectedNumCols grid \<le> col)"

text \<open>\<^verbatim>\<open>cell === 1 ? 0 : 1\<close>.\<close>

definition toggleCell :: "CellState \<Rightarrow> CellState" where
  "toggleCell cell = (if cell = Alive then Dead else Alive)"

text \<open>
  The value \<^verbatim>\<open>setCellState(grid, row, col, newState)\<close> returns; \<open>newState = None\<close> is
  the omitted (\<^verbatim>\<open>undefined\<close>) argument. Out of bounds the function returns its
  argument itself, before any row is copied or normalised.
\<close>

definition setCellState :: "Grid \<Rightarrow> int \<Rightarrow> int \<Rightarrow> CellState option \<Rightarrow> Grid" where
  "setCellState grid row col newState =
     (if outOfBounds grid row col then grid
      else
        let interimGrid = map (sanitizeRow (expectedNumCols grid)) grid
        in mapWithIndex
             (\<lambda>currentRowArray rIndex.
                if int rIndex \<noteq> row then Some currentRowArray
                else Some (mapWithIndex
                       (\<lambda>cell cIndex.
                          if int cIndex \<noteq> col then cell
                          else (case newState of Some s \<Rightarrow> s | None \<Rightarrow> toggleCell cell))
                       currentRowArray))
             interimGrid)"

text \<open>What the same call writes to the console: one warning when out of bounds.\<close>

definition setCellStateConsole :: "Grid \<Rightarrow> int \<Rightarrow> int \<Rightarrow> ConsoleEntry list" where
  "setCellStateConsole grid row col =
     (if outOfBounds grid row col
      then [WarnOutOfBounds row col (int (length grid)) (expectedNumCols grid)]
      else [])"

subsection \<open>loadPattern (game.ts)\<close>

text \<open>
  \<^verbatim>\<open>patternLiveCells\<close> is a \<^verbatim>\<open>Set<string>\<close> of keys \<^verbatim>\<open>`${rTarget},${cTarget}`\<close>; two
  keys are equal exactly when the two integer pairs are, so the model keeps the pairs.
\<close>

definition patternLiveCells :: "Grid \<Rightarrow> Pattern \<Rightarrow> int \<Rightarrow> int \<Rightarrow> (int \<times> int) set" where
  "patternLiveCells grid pattern startRow startCol =
     fold (\<lambda>(rOffset, cOffset) acc.
             let rTarget = startRow + rOffset;
                 cTarget = startCol + cOffset
             in if 0 \<le> rTarget \<and> rTarget < int (length grid)
                   \<and> 0 \<le> cTarget \<and> cTarget < expectedNumCols grid
                then insert (rTarget, cTarget) acc else acc)
          (data pattern) {}"

definition loadPattern :: "Grid \<Rightarrow> Pattern \<Rightarrow> int \<Rightarrow> int \<Rightarrow> Grid" where
  "loadPattern grid pattern startRow startCol =
     (let sanitizedBaseGrid = map (sanitizeRow (expectedNumCols grid)) grid;
          liveCells = patternLiveCells grid pattern startRow startCol
      in mapWithIndex
           (\<lambda>currentRowArray rIndex.
              Some (mapWithIndex
                     (\<lambda>cellState cIndex.
                        if (int rIndex, int cIndex) \<in> liveCells then Alive else cellState)
                     currentRowArray))
           sanitizedBaseGrid)"

text \<open>
  A grid is rectangular with \<open>cols\<close> columns when every row is an array of exactly
  \<open>cols\<close> cells.
\<close>

definition isRectangular :: "nat \<Rightarrow> Grid \<Rightarrow> bool" where
  "isRectangular cols grid =
     list_all (\<lambda>r. case r of None \<Rightarrow> False | Some cells \<Rightarrow> length cells = cols) grid"

subsection \<open>calculateNextGeneration (game.ts)\<close>

text \<open>\<^verbatim>\<open>currentGrid[0]?.length || 0\<close>.\<close>

definition firstRowLength :: "Grid \<Rightarrow> nat" where
  "firstRowLength currentGrid =
     (case currentGrid of
        Some cells # _ \<Rightarrow> length cells
      | _ \<Rightarrow> 0)"

text \<open>
  The two nested \<^verbatim>\<open>for\<close> statements over \<open>i, j \<in> {-1, 0, 1}\<close> that count the
  live neighbours of \<open>(row, col)\<close>. JavaScript's \<^verbatim>\<open>%\<close> truncates towards zero, which is
  \<open>smod\<close> on \<open>int\<close>.
\<close>

definition countLiveNeighbors :: "Grid \<Rightarrow> int \<Rightarrow> int \<Rightarrow> int \<Rightarrow> int \<Rightarrow> nat" where
  "countLiveNeighbors currentGrid numRows numCols row col =
     fold (\<lambda>i.
        fold (\<lambda>j liveNeighbors.
           if i = 0 \<and> j = 0 then liveNeighbors
           else
             let neighborRow = row + i;
                 neighborCol = col + j;
                 wrappedRow = (neighborRow + numRows) smod numRows;
                 wrappedCol = (neighborCol + numCols) smod numCols
             in if cellAt currentGrid wrappedRow wrappedCol = Some Alive
                then liveNeighbors + 1 else liveNeighbors)
          [- 1, 0, 1])
       [- 1, 0, 1] 0"

text \<open>Conway's rules as the code applies them to one cell.\<close>

definition nextCellState :: "CellState \<Rightarrow> nat \<Rightarrow> CellState" where
  "nextCellState currentCellState liveNeighbors =
     (if currentCellState = Alive then
        (if liveNeighbors < 2 \<or> 3 < liveNeighbors then Dead else Alive)
      else
        (if liveNeighbors = 3 then Alive else Dead))"

text \<open>
  A \<^verbatim>\<open>map\<close> whose callback may throw: the first exception aborts the whole call.
\<close>

fun sequenceResults :: "(error + 'a) list \<Rightarrow> error + 'a list" where
  "sequenceResults [] = Inr []"
| "sequenceResults (x # xs) =
     (case x of
        Inl e \<Rightarrow> Inl e
      | Inr v \<Rightarrow> (case sequenceResults xs of Inl e \<Rightarrow> Inl e | Inr vs \<Rightarrow> Inr (v # vs)))"

text \<open>
  \<^verbatim>\<open>rowArray.map\<close> on a row that is not an array throws a TypeError; the neighbour
  lookup itself is guarded by optional chaining and never throws.
\<close>

definition calculateNextGeneration :: "Grid \<Rightarrow> error + Grid" where
  "calculateNextGeneration currentGrid =
     (let numRows = length currentGrid;
          numCols = firstRowLength currentGrid
      in if numRows = 0 \<or> numCols = 0 then Inr []
         else sequenceResults
           (mapWithIndex
              (\<lambda>rowArray row.
                 case rowArray of
                   None \<Rightarrow> Inl TypeError
                 | Some cells \<Rightarrow>
                     Inr (Some (mapWithIndex
                       (\<lambda>currentCellState col.
                          nextCellState currentCellState
                            (countLiveNeighbors currentGrid (int numRows) (int numCols)
                               (int row) (int col)))
                       cells)))
              currentGrid))"

subsection \<open>The transition rule in the words of the specification\<close>

text \<open>
  The eight surrounding positions of \<open>(r, c)\<close> on the torus: row and column indices
  taken modulo the number of rows and columns.
\<close>

definition spec_neighbors :: "int \<Rightarrow> int \<Rightarrow> int \<Rightarrow> int \<Rightarrow> (int \<times> int) list" where
  "spec_neighbors numRows numCols r c =
     map (\<lambda>(dr, dc). ((r + dr) mod numRows, (c + dc) mod numCols))
       [(- 1, - 1), (- 1, 0), (- 1, 1), (0, - 1), (0, 1), (1, - 1), (1, 0), (1, 1)]"

definition spec_liveNeighbors :: "Grid \<Rightarrow> int \<Rightarrow> int \<Rightarrow> int \<Rightarrow> int \<Rightarrow> nat" where
  "spec_liveNeighbors g numRows numCols r c =
     length (filter (\<lambda>(r', c'). cellAt g r' c' = Some Alive)
               (spec_neighbors numRows numCols r c))"

subsection \<open>Grid factories (game.ts)\<close>

text \<open>
  \<^verbatim>\<open>Array.from({ length: numRows }, () => Array(numCols).fill(0))\<close>. A negative length
  of the array-like counts as 0, and then the callback never runs; a length above
  \<open>2^32 - 1\<close>, and \<^verbatim>\<open>Array(numCols)\<close> with a negative \<open>numCols\<close> or one above
  \<open>2^32 - 1\<close>, throw a RangeError.
\<close>

definition maxArrayLength :: int where
  "maxArrayLength = 4294967295"

definition createEmptyGrid :: "int \<Rightarrow> int \<Rightarrow> error + Grid" where
  "createEmptyGrid rows cols =
     (if maxArrayLength < rows then Inl RangeError
      else if rows \<le> 0 then Inr []
      else if cols < 0 \<or> maxArrayLength < cols then Inl RangeError
      else Inr (replicate (nat rows) (Some (replicate (nat cols) Dead))))"

text \<open>
  \<^verbatim>\<open>createRandomGrid\<close> draws \<^verbatim>\<open>Math.random() < probability\<close> once per cell. The
  outcome of the draw for the cell at row \<open>r\<close> and column \<open>c\<close> is the parameter
  \<open>draw r c\<close> (the floating-point comparison itself is not modelled). Both arrays
  are built by \<^verbatim>\<open>Array.from\<close>.
\<close>

definition createRandomGrid :: "int \<Rightarrow> int \<Rightarrow> (nat \<Rightarrow> nat \<Rightarrow> bool) \<Rightarrow> error + Grid" where
  "createRandomGrid rows cols draw =
     (if maxArrayLength < rows then Inl RangeError
      else if rows \<le> 0 then Inr []
      else if maxArrayLength < cols then Inl RangeError
      else Inr (map (\<lambda>r. Some (map (\<lambda>c. if draw r c then Alive else Dead) [0..<nat cols]))
                  [0..<nat rows]))"

subsection \<open>Session state and commands (main.ts, input.ts)\<close>

record GameState =
  grid :: Grid
  numRows :: int
  numCols :: int
  generation :: int
  status :: SimulationStatus
  simulationInterval :: int
  timerId :: "nat option"
  isDrawing :: bool
  drawMode :: CellState

text \<open>
  The \<^verbatim>\<open>GameOfLife\<close> object together with the part of the browser it drives: the
  interval timers that are active (identifier and delay) and the next identifier
  \<^verbatim>\<open>window.setInterval\<close> hands out. Rendering, the animation-frame loop and the
  enabling of buttons do not touch the game state and are left out.
\<close>

record Session =
  gameState :: GameState
  activeIntervals :: "(nat \<times> int) list"
  nextIntervalId :: nat

definition setInterval :: "int \<Rightarrow> Session \<Rightarrow> nat \<times> Session" where
  "setInterval delay s =
     (nextIntervalId s,
      s\<lparr>activeIntervals := (nextIntervalId s, delay) # activeIntervals s,
        nextIntervalId := Suc (nextIntervalId s)\<rparr>)"

definition clearInterval :: "nat \<Rightarrow> Session \<Rightarrow> Session" where
  "clearInterval ident s =
     s\<lparr>activeIntervals := filter (\<lambda>(i, _). i \<noteq> ident) (activeIntervals s)\<rparr>"

definition startSimulation :: "Session \<Rightarrow> Session" where
  "startSimulation s =
     (if status (gameState s) = Running then s
      else
        let s1 = s\<lparr>gameState := (gameState s)\<lparr>status := Running\<rparr>\<rparr>;
            s2 = (case timerId (gameState s1) of
                    Some ident \<Rightarrow> clearInterval ident s1
                  | None \<Rightarrow> s1);
            (ident, s3) = setInterval (simulationInterval (gameState s2)) s2
        in s3\<lparr>gameState := (gameState s3)\<lparr>timerId := Some ident\<rparr>\<rparr>)"

definition stopSimulation :: "Session \<Rightarrow> Session" where
  "stopSimulation s =
     (if status (gameState s) \<noteq> Running then s
      else
        let s1 = s\<lparr>gameState := (gameState s)\<lparr>status := Paused\<rparr>\<rparr>
        in case timerId (gameState s1) of
             Some ident \<Rightarrow>
               (clearInterval ident s1)\<lparr>gameState := (gameState s1)\<lparr>timerId := None\<rparr>\<rparr>
           | None \<Rightarrow> s1)"

text \<open>
  \<^verbatim>\<open>stepGeneration\<close> is what the step button and the interval timer both call. An
  exception of \<^verbatim>\<open>calculateNextGeneration\<close> leaves the command before anything is
  assigned.
\<close>

definition stepGeneration :: "Session \<Rightarrow> error + Session" where
  "stepGeneration s =
     (case calculateNextGeneration (grid (gameState s)) of
        Inl e \<Rightarrow> Inl e
      | Inr g \<Rightarrow>
          Inr (s\<lparr>gameState := (gameState s)\<lparr>grid := g,
                   generation := generation (gameState s) + 1\<rparr>\<rparr>))"

definition randomizeGrid :: "(nat \<Rightarrow> nat \<Rightarrow> bool) \<Rightarrow> Session \<Rightarrow> error + Session" where
  "randomizeGrid draw s =
     (let s1 = stopSimulation s
      in case createRandomGrid (numRows (gameState s1)) (numCols (gameState s1)) draw of
           Inl e \<Rightarrow> Inl e
         | Inr g \<Rightarrow>
             Inr (s1\<lparr>gameState := (gameState s1)\<lparr>grid := g, generation := 0,
                       status := Paused\<rparr>\<rparr>))"

definition clearGrid :: "Session \<Rightarrow> error + Session" where
  "clearGrid s =
     (let s1 = stopSimulation s
      in case createEmptyGrid (numRows (gameState s1)) (numCols (gameState s1)) of
           Inl e \<Rightarrow> Inl e
         | Inr g \<Rightarrow>
             Inr (s1\<lparr>gameState := (gameState s1)\<lparr>grid := g, generation := 0,
                       status := Paused\<rparr>\<rparr>))"

definition handleCellToggle :: "int \<Rightarrow> int \<Rightarrow> CellState option \<Rightarrow> Session \<Rightarrow> Session" where
  "handleCellToggle row col explicitState s =
     (if status (gameState s) = Paused
      then s\<lparr>gameState := (gameState s)
               \<lparr>grid := setCellState (grid (gameState s)) row col explicitState\<rparr>\<rparr>
      else s)"

definition handleSpeedChange :: "int \<Rightarrow> Session \<Rightarrow> Session" where
  "handleSpeedChange interval s =
     (let s1 = s\<lparr>gameState := (gameState s)\<lparr>simulationInterval := interval\<rparr>\<rparr>
      in if status (gameState s1) = Running
         then startSimulation (stopSimulation s1)
         else s1)"

text \<open>
  \<^verbatim>\<open>Math.floor((numRows - pattern.height) / 2)\<close> on integers is \<open>div 2\<close>, which rounds
  down for negative numbers as well.
\<close>

definition handleLoadPattern :: "Pattern \<Rightarrow> Session \<Rightarrow> error + Session" where
  "handleLoadPattern pattern s =
     (let s1 = stopSimulation s
      in case createEmptyGrid (numRows (gameState s1)) (numCols (gameState s1)) of
           Inl e \<Rightarrow> Inl e
         | Inr cleared \<Rightarrow>
             let startRow = (numRows (gameState s1) - height pattern) div 2;
                 startCol = (numCols (gameState s1) - width pattern) div 2;
                 g = loadPattern cleared pattern startRow startCol
             in Inr (s1\<lparr>gameState := (gameState s1)\<lparr>grid := g, generation := 0,
                          status := Paused\<rparr>\<rparr>))"

text \<open>
  The click handler of the step button (input.ts):
  \<^verbatim>\<open>if (gameStateRef.current.status === 'paused') { onStep(); }\<close>, where \<^verbatim>\<open>onStep\<close> is
  bound to \<^verbatim>\<open>stepGeneration\<close>.
\<close>

definition stepButtonClick :: "Session \<Rightarrow> error + Session" where
  "stepButtonClick s =
     (if status (gameState s) = Paused then stepGeneration s else Inr s)"

text \<open>
  The input handler of the speed slider (input.ts); \<open>sliderValue\<close> is
  \<^verbatim>\<open>parseFloat(target.value)\<close>. The slider of index.html has
  \<^verbatim>\<open>min="50" max="1000" step="50"\<close>.
\<close>

definition speedSliderInput :: "int \<Rightarrow> Session \<Rightarrow> Session" where
  "speedSliderInput sliderValue s =
     handleSpeedChange
       (maxSimulationIntervalMs - sliderValue + minSimulationIntervalMs) s"

subsection \<open>Basic facts\<close>

lemma length_mapWithIndex [simp]: "length (mapWithIndex f xs) = length xs"
  by (simp add: mapWithIndex_def)

lemma nth_mapWithIndex [simp]:
  "i < length xs \<Longrightarrow> mapWithIndex f xs ! i = f (xs ! i) i"
  by (simp add: mapWithIndex_def nth_enumerate_eq)

subsection \<open>Normalisation\<close>

lemma expectedNumCols_nonneg: "0 \<le> expectedNumCols g"
  by (simp add: expectedNumCols_def initialGridCols_def split: list.splits option.splits)

lemma fold_assign:
  "k + length xs \<le> length acc \<Longrightarrow>
   fold (\<lambda>(i, val) acc. acc[i := val]) (enumerate k xs) acc
     = take k acc @ xs @ drop (k + length xs) acc"
proof (induction xs arbitrary: k acc)
  case Nil
  then show ?case by simp
next
  case (Cons x xs)
  have "fold (\<lambda>(i, val) acc. acc[i := val]) (enumerate k (x # xs)) acc
        = fold (\<lambda>(i, val) acc. acc[i := val]) (enumerate (Suc k) xs) (acc[k := x])"
    by simp
  also have "\<dots> = take (Suc k) (acc[k := x]) @ xs @ drop (Suc k + length xs) (acc[k := x])"
    using Cons.prems by (intro Cons.IH) simp
  also have "\<dots> = take k acc @ (x # xs) @ drop (k + length (x # xs)) acc"
    using Cons.prems by (simp add: take_Suc_conv_app_nth)
  finally show ?case .
qed

lemma sanitizeRow_pad:
  "0 \<le> n \<Longrightarrow> sanitizeRow n r =
     (case r of None \<Rightarrow> replicate (nat n) Dead
      | Some cells \<Rightarrow> take (nat n) cells @ replicate (nat n - length cells) Dead)"
  using fold_assign [of 0 "the r" "replicate (nat n) Dead"]
  by (auto simp: sanitizeRow_def Let_def split: option.splits)

lemma length_sanitizeRow: "0 \<le> n \<Longrightarrow> length (sanitizeRow n r) = nat n"
  by (auto simp: sanitizeRow_pad split: option.splits)

lemma sanitizeRow_id: "int (length cells) = n \<Longrightarrow> sanitizeRow n (Some cells) = cells"
  by (auto simp: sanitizeRow_def)

lemma nth_sanitizeRow:
  "i < nat n \<Longrightarrow> sanitizeRow n r ! i =
     (case r of None \<Rightarrow> Dead
      | Some cells \<Rightarrow> if i < length cells then cells ! i else Dead)"
  by (auto simp: sanitizeRow_pad nth_append split: option.splits)

text \<open>The value a cell has after normalisation: its own, or dead where the input has none.\<close>

lemma sanitized_cell:
  assumes "0 \<le> r" "r < int (length g)" "0 \<le> c" "c < n"
  shows "sanitizeRow n (g ! nat r) ! nat c
           = (case cellAt g r c of None \<Rightarrow> Dead | Some v \<Rightarrow> v)"
proof -
  have "nat c < nat n" using assms by simp
  then show ?thesis
    using assms by (auto simp: nth_sanitizeRow cellAt_def split: option.splits)
qed

lemma mapWithIndex_at:
  "0 \<le> k \<Longrightarrow>
   mapWithIndex (\<lambda>x i. if int i \<noteq> k then f x else h x) xs
     = (map f xs)[nat k := h (xs ! nat k)]"
  by (rule nth_equalityI) (auto simp: nth_list_update)

lemma setCellState_in_bounds:
  assumes "\<not> outOfBounds g row col"
  shows "setCellState g row col newState =
     (map (\<lambda>r. Some (sanitizeRow (expectedNumCols g) r)) g)
       [nat row := Some ((sanitizeRow (expectedNumCols g) (g ! nat row))
          [nat col := (case newState of
                         Some s \<Rightarrow> s
                       | None \<Rightarrow> toggleCell (sanitizeRow (expectedNumCols g) (g ! nat row) ! nat col))])]"
proof -
  have b: "0 \<le> row" "0 \<le> col" "nat row < length g"
    using assms by (auto simp: outOfBounds_def)
  show ?thesis
    using assms b
    by (simp add: setCellState_def mapWithIndex_at [OF b(1)] mapWithIndex_at [OF b(2)]
          Let_def o_def)
qed

lemma isRectangular_nth:
  "isRectangular cols g \<Longrightarrow> i < length g \<Longrightarrow> \<exists>cells. g ! i = Some cells \<and> length cells = cols"
  by (auto simp: isRectangular_def list_all_length split: option.splits)

lemma isRectangular_expected:
  "isRectangular cols g \<Longrightarrow> g \<noteq> [] \<Longrightarrow> expectedNumCols g = int cols"
  by (cases g) (auto simp: isRectangular_def expectedNumCols_def split: option.splits)

lemma isRectangular_sanitize:
  assumes "isRectangular cols g"
  shows "map (\<lambda>r. Some (sanitizeRow (int cols) r)) g = g"
proof (rule nth_equalityI)
  show "length (map (\<lambda>r. Some (sanitizeRow (int cols) r)) g) = length g" by simp
next
  fix i assume "i < length (map (\<lambda>r. Some (sanitizeRow (int cols) r)) g)"
  then have i: "i < length g" by simp
  then obtain cells where "g ! i = Some cells" "length cells = cols"
    using isRectangular_nth [OF assms] by blast
  then show "map (\<lambda>r. Some (sanitizeRow (int cols) r)) g ! i = g ! i"
    using i by (simp add: sanitizeRow_id)
qed

lemma setCellState_rectangular:
  assumes rect: "isRectangular cols g"
    and b: "0 \<le> row" "row < int (length g)" "0 \<le> col" "col < int cols"
    and row: "g ! nat row = Some cells"
  shows "setCellState g row col newState =
     g[nat row := Some (cells[nat col :=
          (case newState of Some s \<Rightarrow> s | None \<Rightarrow> toggleCell (cells ! nat col))])]"
proof -
  have ne: "g \<noteq> []" using b by auto
  have e: "expectedNumCols g = int cols"
    by (rule isRectangular_expected [OF rect ne])
  have oob: "\<not> outOfBounds g row col"
    using b e by (simp add: outOfBounds_def)
  have len: "length cells = cols"
    using isRectangular_nth [OF rect, of "nat row"] b row by auto
  show ?thesis
    by (simp add: setCellState_in_bounds [OF oob] e isRectangular_sanitize [OF rect] row
          sanitizeRow_id len split: option.splits)
qed

subsection \<open>Reading cells\<close>

lemma cellAt_row:
  "0 \<le> r \<Longrightarrow> r < int (length g) \<Longrightarrow> g ! nat r = Some cells \<Longrightarrow>
   cellAt g r c = (if c < 0 \<or> int (length cells) \<le> c then None else Some (cells ! nat c))"
  by (simp add: cellAt_def)

lemma cellAt_outside:
  "r < 0 \<or> int (length g) \<le> r \<Longrightarrow> cellAt g r c = None"
  by (auto simp: cellAt_def)

lemma cellAt_update_other:
  "r \<noteq> int i \<Longrightarrow> cellAt (g[i := x]) r c = cellAt g r c"
  by (auto simp: cellAt_def nat_eq_iff)

lemma toggleCell_twice: "toggleCell (toggleCell v) = v"
  by (cases v) (simp_all add: toggleCell_def)

lemma isRectangular_update:
  "isRectangular cols g \<Longrightarrow> length cells = cols \<Longrightarrow> isRectangular cols (g[i := Some cells])"
  using set_update_subset_insert [of g i "Some cells"]
  by (auto simp: isRectangular_def list_all_iff)

subsection \<open>The pattern's target set\<close>

lemma fold_patternLiveCells:
  "fold (\<lambda>(rOffset, cOffset) acc.
             let rTarget = sr + rOffset;
                 cTarget = sc + cOffset
             in if 0 \<le> rTarget \<and> rTarget < nr
                   \<and> 0 \<le> cTarget \<and> cTarget < nc
                then insert (rTarget, cTarget) acc else acc)
          offsets acc
   = acc \<union> {(r :: int, c :: int). (r - sr, c - sc) \<in> set offsets \<and> 0 \<le> r \<and> r < nr \<and> 0 \<le> c \<and> c < nc}"
proof (induction offsets arbitrary: acc)
  case Nil
  then show ?case by simp
next
  case (Cons o1 offsets)
  obtain ro co where o1: "o1 = (ro, co)" by (cases o1)
  have shift: "(r - sr, c - sc) = (ro, co) \<longleftrightarrow> (r, c) = (sr + ro, sc + co)" for r c
    by auto
  show ?case
    unfolding fold_simps o1 Cons.IH
    by (auto simp: Let_def shift)
qed

lemma patternLiveCells_iff:
  "(r, c) \<in> patternLiveCells g p sr sc \<longleftrightarrow>
     (r - sr, c - sc) \<in> set (data p)
     \<and> 0 \<le> r \<and> r < int (length g) \<and> 0 \<le> c \<and> c < expectedNumCols g"
  by (simp add: patternLiveCells_def fold_patternLiveCells)

lemma loadPattern_nth:
  "i < length g \<Longrightarrow>
   loadPattern g p sr sc ! i =
     Some (mapWithIndex
             (\<lambda>cellState cIndex.
                if (int i, int cIndex) \<in> patternLiveCells g p sr sc then Alive else cellState)
             (sanitizeRow (expectedNumCols g) (g ! i)))"
  by (simp add: loadPattern_def Let_def)

lemma length_loadPattern: "length (loadPattern g p sr sc) = length g"
  by (simp add: loadPattern_def Let_def)

lemma cellAt_loadPattern:
  "cellAt (loadPattern g p sr sc) r c =
     (if 0 \<le> r \<and> r < int (length g) \<and> 0 \<le> c \<and> c < expectedNumCols g then
        (if (r - sr, c - sc) \<in> set (data p) then Some Alive
         else Some (case cellAt g r c of None \<Rightarrow> Dead | Some v \<Rightarrow> v))
      else None)"
proof (cases "0 \<le> r \<and> r < int (length g)")
  case False
  then show ?thesis by (auto simp: cellAt_outside length_loadPattern)
next
  case True
  then have i: "nat r < length g" by auto
  have n: "0 \<le> expectedNumCols g" by (rule expectedNumCols_nonneg)
  show ?thesis
  proof (cases "0 \<le> c \<and> c < expectedNumCols g")
    case False
    then show ?thesis
      using True i n
      by (auto simp: cellAt_def length_loadPattern loadPattern_nth length_sanitizeRow)
  next
    case c: True
    then have j: "nat c < nat (expectedNumCols g)" by auto
    have "cellAt (loadPattern g p sr sc) r c
        = Some (if (r, c) \<in> patternLiveCells g p sr sc then Alive
                else sanitizeRow (expectedNumCols g) (g ! nat r) ! nat c)"
      using True i n c j
      by (simp add: cellAt_def length_loadPattern loadPattern_nth length_sanitizeRow)
    then show ?thesis
      using True c by (simp add: patternLiveCells_iff sanitized_cell)
  qed
qed

subsection \<open>Shape of the results\<close>

lemma isRectangular_loadPattern:
  "isRectangular (nat (expectedNumCols g)) (loadPattern g p sr sc)"
  using expectedNumCols_nonneg [of g]
  by (simp add: isRectangular_def list_all_length length_loadPattern loadPattern_nth
        length_sanitizeRow)

lemma isRectangular_map_sanitize:
  "0 \<le> n \<Longrightarrow> isRectangular (nat n) (map (\<lambda>r. Some (sanitizeRow n r)) g)"
  by (simp add: isRectangular_def list_all_iff length_sanitizeRow)

lemma isRectangular_setCellState:
  assumes "\<not> outOfBounds g row col"
  shows "isRectangular (nat (expectedNumCols g)) (setCellState g row col ns)"
  unfolding setCellState_in_bounds [OF assms]
  by (intro isRectangular_update isRectangular_map_sanitize)
     (simp_all add: expectedNumCols_nonneg length_sanitizeRow)

lemma length_setCellState: "length (setCellState g row col ns) = length g"
  by (simp add: setCellState_def Let_def)

lemma expectedNumCols_unfold:
  "expectedNumCols g = (case g of Some cells # _ \<Rightarrow> int (length cells) | _ \<Rightarrow> 70)"
  by (simp add: expectedNumCols_def initialGridCols_def split: list.splits option.splits)

lemma cellAt_loadPattern_rectangular:
  assumes rect: "isRectangular cols g"
    and un: "(r - sr, c - sc) \<notin> set (data p)"
  shows "cellAt (loadPattern g p sr sc) r c = cellAt g r c"
proof (cases "0 \<le> r \<and> r < int (length g)")
  case False
  then show ?thesis by (auto simp: cellAt_outside length_loadPattern)
next
  case True
  then have i: "nat r < length g" and ne: "g \<noteq> []" by auto
  obtain cells where row: "g ! nat r = Some cells" and len: "length cells = cols"
    using isRectangular_nth [OF rect i] by blast
  have e: "expectedNumCols g = int cols"
    by (rule isRectangular_expected [OF rect ne])
  have old: "cellAt g r c = (if c < 0 \<or> int cols \<le> c then None else Some (cells ! nat c))"
    using True len by (simp add: cellAt_row [OF _ _ row])
  show ?thesis
    using True un by (auto simp: cellAt_loadPattern e old)
qed

lemma isRectangular_loadPattern_same:
  assumes "isRectangular cols g"
  shows "isRectangular cols (loadPattern g p sr sc)"
proof (cases "g = []")
  case True
  then show ?thesis by (simp add: loadPattern_def isRectangular_def mapWithIndex_def)
next
  case False
  then show ?thesis
    using isRectangular_loadPattern [of g p sr sc] isRectangular_expected [OF assms False]
    by simp
qed

section \<open>Mutation operations\<close>

text \<open>
  C2, as the code has it. Let the bound on columns be the length of row 0, or 70 when
  the grid is empty or row 0 is not an array. Whatever the grid, the pattern and the
  start position, loadPattern returns a grid with as many rows as the input, each an
  array of exactly that many cells. In it every pattern offset whose target lies
  inside the bounds is alive; every cell inside the bounds that no offset targets has
  the value the input had there, or is dead where the input had no such cell; a cell
  that was alive inside the bounds is still alive; targets outside the bounds are
  dropped, and no cell exists outside the bounds, so the part of an input row beyond
  the bound is cut off. On a rectangular grid the result has the same shape and every
  position that no offset targets reads as in the input.
\<close>

theorem loadPattern_stamps:
  assumes "bound = (case g of Some cells # _ \<Rightarrow> int (length cells) | _ \<Rightarrow> 70)"
  shows "length (loadPattern g p sr sc) = length g
   \<and> isRectangular (nat bound) (loadPattern g p sr sc)
   \<and> (\<forall>(rOffset, cOffset) \<in> set (data p).
         0 \<le> sr + rOffset \<and> sr + rOffset < int (length g)
         \<and> 0 \<le> sc + cOffset \<and> sc + cOffset < bound
        \<longrightarrow> cellAt (loadPattern g p sr sc) (sr + rOffset) (sc + cOffset) = Some Alive)
   \<and> (\<forall>r c. 0 \<le> r \<and> r < int (length g) \<and> 0 \<le> c \<and> c < bound
             \<and> (\<forall>(rOffset, cOffset) \<in> set (data p). (sr + rOffset, sc + cOffset) \<noteq> (r, c))
        \<longrightarrow> cellAt (loadPattern g p sr sc) r c
              = Some (case cellAt g r c of None \<Rightarrow> Dead | Some v \<Rightarrow> v))
   \<and> (\<forall>r c. 0 \<le> r \<and> r < int (length g) \<and> 0 \<le> c \<and> c < bound
             \<and> cellAt g r c = Some Alive
        \<longrightarrow> cellAt (loadPattern g p sr sc) r c = Some Alive)
   \<and> (\<forall>r c. r < 0 \<or> int (length g) \<le> r \<or> c < 0 \<or> bound \<le> c
        \<longrightarrow> cellAt (loadPattern g p sr sc) r c = None)
   \<and> (\<forall>cols. isRectangular cols g \<longrightarrow>
         isRectangular cols (loadPattern g p sr sc)
         \<and> (\<forall>r c. (\<forall>(rOffset, cOffset) \<in> set (data p). (sr + rOffset, sc + cOffset) \<noteq> (r, c))
              \<longrightarrow> cellAt (loadPattern g p sr sc) r c = cellAt g r c))"
proof -
  have n: "bound = expectedNumCols g"
    using assms by (simp add: expectedNumCols_unfold)
  have untargeted: "(r - sr, c - sc) \<notin> set (data p)"
    if "\<forall>(rOffset, cOffset) \<in> set (data p). (sr + rOffset, sc + cOffset) \<noteq> (r, c)" for r c
  proof
    assume "(r - sr, c - sc) \<in> set (data p)"
    with that have "(sr + (r - sr), sc + (c - sc)) \<noteq> (r, c)" by blast
    then show False by simp
  qed
  have shape: "length (loadPattern g p sr sc) = length g"
    "isRectangular (nat bound) (loadPattern g p sr sc)"
    by (simp_all add: n length_loadPattern isRectangular_loadPattern)
  have cells: "(\<forall>(rOffset, cOffset) \<in> set (data p).
         0 \<le> sr + rOffset \<and> sr + rOffset < int (length g)
         \<and> 0 \<le> sc + cOffset \<and> sc + cOffset < bound
        \<longrightarrow> cellAt (loadPattern g p sr sc) (sr + rOffset) (sc + cOffset) = Some Alive)
   \<and> (\<forall>r c. 0 \<le> r \<and> r < int (length g) \<and> 0 \<le> c \<and> c < bound
             \<and> (\<forall>(rOffset, cOffset) \<in> set (data p). (sr + rOffset, sc + cOffset) \<noteq> (r, c))
        \<longrightarrow> cellAt (loadPattern g p sr sc) r c
              = Some (case cellAt g r c of None \<Rightarrow> Dead | Some v \<Rightarrow> v))
   \<and> (\<forall>r c. 0 \<le> r \<and> r < int (length g) \<and> 0 \<le> c \<and> c < bound
             \<and> cellAt g r c = Some Alive
        \<longrightarrow> cellAt (loadPattern g p sr sc) r c = Some Alive)
   \<and> (\<forall>r c. r < 0 \<or> int (length g) \<le> r \<or> c < 0 \<or> bound \<le> c
        \<longrightarrow> cellAt (loadPattern g p sr sc) r c = None)"
    unfolding n by (auto simp: cellAt_loadPattern dest: untargeted)
  have rect: "\<forall>cols. isRectangular cols g \<longrightarrow>
         isRectangular cols (loadPattern g p sr sc)
         \<and> (\<forall>r c. (\<forall>(rOffset, cOffset) \<in> set (data p). (sr + rOffset, sc + cOffset) \<noteq> (r, c))
              \<longrightarrow> cellAt (loadPattern g p sr sc) r c = cellAt g r c)"
  proof (intro allI impI conjI)
    fix cols assume "isRectangular cols g"
    then show "isRectangular cols (loadPattern g p sr sc)"
      by (rule isRectangular_loadPattern_same)
  next
    fix cols r c
    assume "isRectangular cols g"
      and "\<forall>(rOffset, cOffset) \<in> set (data p). (sr + rOffset, sc + cOffset) \<noteq> (r, c)"
    then show "cellAt (loadPattern g p sr sc) r c = cellAt g r c"
      by (intro cellAt_loadPattern_rectangular untargeted)
  qed
  from shape cells rect show ?thesis by blast
qed

theorem loadPattern_stamps_witness:
  "isRectangular 2 (loadPattern [Some [Dead, Dead], None, Some [Alive, Alive, Alive]]
             \<lparr>name = ''corner'', data = [(0, 0), (5, 5), (- 1, 0)], width = 1, height = 1\<rparr>
             1 1)
   \<and> cellAt (loadPattern [Some [Dead, Dead], None, Some [Alive, Alive, Alive]]
             \<lparr>name = ''corner'', data = [(0, 0), (5, 5), (- 1, 0)], width = 1, height = 1\<rparr>
             1 1) 1 1 = Some Alive
   \<and> cellAt (loadPattern [Some [Dead, Dead], None, Some [Alive, Alive, Alive]]
             \<lparr>name = ''corner'', data = [(0, 0), (5, 5), (- 1, 0)], width = 1, height = 1\<rparr>
             1 1) 2 0 = Some Alive
   \<and> cellAt (loadPattern [Some [Dead, Dead], None, Some [Alive, Alive, Alive]]
             \<lparr>name = ''corner'', data = [(0, 0), (5, 5), (- 1, 0)], width = 1, height = 1\<rparr>
             1 1) 1 0 = Some Dead
   \<and> cellAt (loadPattern [Some [Dead, Dead], None, Some [Alive, Alive, Alive]]
             \<lparr>name = ''corner'', data = [(0, 0), (5, 5), (- 1, 0)], width = 1, height = 1\<rparr>
             1 1) 2 2 = None
   \<and> isRectangular 2 [Some [Dead, Alive], Some [Alive, Dead]]
   \<and> cellAt (loadPattern [Some [Dead, Alive], Some [Alive, Dead]]
             \<lparr>name = ''corner'', data = [(0, 0), (5, 5), (- 1, 0)], width = 1, height = 1\<rparr>
             1 1) 1 0 = Some Alive
   \<and> cellAt (loadPattern [Some [Dead, Alive], Some [Alive, Dead]]
             \<lparr>name = ''corner'', data = [(0, 0), (5, 5), (- 1, 0)], width = 1, height = 1\<rparr>
             1 1) 0 2 = None"
proof -
  let ?g = "[Some [Dead, Dead], None, Some [Alive, Alive, Alive]]"
  let ?h = "[Some [Dead, Alive], Some [Alive, Dead]]"
  let ?p = "\<lparr>name = ''corner'', data = [(0, 0), (5, 5), (- 1, 0)], width = 1, height = 1\<rparr>"
  have "(2 :: int) = (case ?g of Some cells # _ \<Rightarrow> int (length cells) | _ \<Rightarrow> 70)"
    by simp
  note stamped = loadPattern_stamps [OF this, where p = ?p and sr = 1 and sc = 1]
  have "(2 :: int) = (case ?h of Some cells # _ \<Rightarrow> int (length cells) | _ \<Rightarrow> 70)"
    by simp
  note square = loadPattern_stamps [OF this, where p = ?p and sr = 1 and sc = 1]
  have old: "cellAt ?g 2 0 = Some Alive" "cellAt ?g 1 0 = None"
    "cellAt ?h 1 0 = Some Alive" "cellAt ?h 0 2 = None"
    by (simp_all add: cellAt_def)
  have rect: "isRectangular 2 ?h"
    by (simp add: isRectangular_def)
  have "isRectangular 2 (loadPattern ?g ?p 1 1)"
    using stamped [THEN conjunct2, THEN conjunct1] by simp
  moreover have "cellAt (loadPattern ?g ?p 1 1) 1 1 = Some Alive"
    using stamped [THEN conjunct2, THEN conjunct2, THEN conjunct1] by simp
  moreover have "cellAt (loadPattern ?g ?p 1 1) 2 0 = Some Alive"
    using stamped [THEN conjunct2, THEN conjunct2, THEN conjunct2, THEN conjunct1,
        rule_format, of 2 0]
    by (simp add: old)
  moreover have "cellAt (loadPattern ?g ?p 1 1) 1 0 = Some Dead"
    using stamped [THEN conjunct2, THEN conjunct2, THEN conjunct2, THEN conjunct1,
        rule_format, of 1 0]
    by (simp add: old)
  moreover have "cellAt (loadPattern ?g ?p 1 1) 2 2 = None"
    using stamped [THEN conjunct2, THEN conjunct2, THEN conjunct2, THEN conjunct2,
        THEN conjunct2, THEN conjunct1, rule_format, of 2 2]
    by simp
  moreover have kept: "\<forall>r c.
      (\<forall>(rOffset, cOffset) \<in> set (data ?p). (1 + rOffset, 1 + cOffset) \<noteq> (r, c))
      \<longrightarrow> cellAt (loadPattern ?h ?p 1 1) r c = cellAt ?h r c"
    using square [THEN conjunct2, THEN conjunct2, THEN conjunct2, THEN conjunct2,
        THEN conjunct2, THEN conjunct2, THEN spec, of 2] rect
    by blast
  have "cellAt (loadPattern ?h ?p 1 1) 1 0 = Some Alive"
    using kept [THEN spec, THEN spec, of 1 0] by (simp add: old)
  moreover have "cellAt (loadPattern ?h ?p 1 1) 0 2 = None"
    using kept [THEN spec, THEN spec, of 0 2] by (simp add: old)
  ultimately show ?thesis using rect by simp
qed

text \<open>
  C2 as stated fails on a grid whose second row is longer than row 0: with the empty
  pattern, the live cell at (1, 1) is no target, yet the returned grid has no cell
  there any more.
\<close>

theorem loadPattern_truncates_counterexample:
  "cellAt [Some [Dead], Some [Dead, Alive]] 1 1 = Some Alive
   \<and> loadPattern [Some [Dead], Some [Dead, Alive]]
        \<lparr>name = ''nothing'', data = [], width = 0, height = 0\<rparr> 0 0
       = [Some [Dead], Some [Dead]]
   \<and> cellAt (loadPattern [Some [Dead], Some [Dead, Alive]]
        \<lparr>name = ''nothing'', data = [], width = 0, height = 0\<rparr> 0 0) 1 1 = None"
  by (simp add: loadPattern_def patternLiveCells_def expectedNumCols_def sanitizeRow_def
        mapWithIndex_def cellAt_def)

text \<open>
  C3. On a rectangular grid and an in-bounds position, setCellState with an explicit
  state leaves that state in the target cell; without one it toggles the target cell
  (alive becomes dead, dead becomes alive); every other position reads as in the
  input grid, and the result has the input's shape.
\<close>

theorem setCellState_sets_or_toggles:
  assumes "isRectangular cols g" "0 \<le> row" "row < int (length g)" "0 \<le> col" "col < int cols"
  shows "cellAt (setCellState g row col (Some s)) row col = Some s
     \<and> cellAt g row col \<noteq> None
     \<and> (cellAt g row col = Some Alive
          \<longrightarrow> cellAt (setCellState g row col None) row col = Some Dead)
     \<and> (cellAt g row col = Some Dead
          \<longrightarrow> cellAt (setCellState g row col None) row col = Some Alive)
     \<and> (\<forall>r c. (r, c) \<noteq> (row, col)
          \<longrightarrow> cellAt (setCellState g row col newState) r c = cellAt g r c)
     \<and> length (setCellState g row col newState) = length g
     \<and> isRectangular cols (setCellState g row col newState)"
proof -
  have "nat row < length g" using assms(2,3) by simp
  then obtain cells where row: "g ! nat row = Some cells" and len: "length cells = cols"
    using isRectangular_nth [OF assms(1)] by blast
  note eq = setCellState_rectangular [OF assms row]
  have i: "nat row < length g" "nat col < length cells"
    using assms len by auto
  have old: "cellAt g row col = Some (cells ! nat col)"
    using assms len by (simp add: cellAt_row [OF _ _ row])
  have target: "cellAt (setCellState g row col ns) row col
      = Some (case ns of Some s \<Rightarrow> s | None \<Rightarrow> toggleCell (cells ! nat col))" for ns
    using assms len i by (simp add: eq cellAt_def)
  have other: "cellAt (setCellState g row col newState) r c = cellAt g r c"
    if "(r, c) \<noteq> (row, col)" for r c
  proof (cases "r = row")
    case False
    then show ?thesis using assms by (simp add: eq cellAt_update_other)
  next
    case True
    with that have "c \<noteq> col" by simp
    then have "nat c \<noteq> nat col \<or> c < 0" using assms by auto
    then show ?thesis
      using True assms len i row by (auto simp: eq cellAt_def)
  qed
  have shape: "length (setCellState g row col newState) = length g"
    "isRectangular cols (setCellState g row col newState)"
    using assms(1) len by (simp_all add: eq isRectangular_update)
  show ?thesis
    using target [of "Some s"] target [of None] old other shape
    by (simp add: toggleCell_def)
qed

theorem setCellState_sets_or_toggles_witness:
  "isRectangular 2 [Some [Dead, Alive], Some [Alive, Dead]]
   \<and> cellAt (setCellState [Some [Dead, Alive], Some [Alive, Dead]] 1 0 (Some Dead)) 1 0
       = Some Dead
   \<and> cellAt (setCellState [Some [Dead, Alive], Some [Alive, Dead]] 1 0 None) 1 0
       = Some Dead
   \<and> cellAt (setCellState [Some [Dead, Alive], Some [Alive, Dead]] 1 0 None) 0 1
       = Some Alive"
proof -
  let ?g = "[Some [Dead, Alive], Some [Alive, Dead]]"
  have rect: "isRectangular 2 ?g"
    by (simp add: isRectangular_def)
  have old: "cellAt ?g 1 0 = Some Alive" "cellAt ?g 0 1 = Some Alive"
    by (simp_all add: cellAt_def)
  note set = setCellState_sets_or_toggles
    [where g = ?g and cols = 2 and row = 1 and col = 0 and s = Dead and newState = None]
  have facts: "cellAt (setCellState ?g 1 0 (Some Dead)) 1 0 = Some Dead"
    "cellAt (setCellState ?g 1 0 None) 1 0 = Some Dead"
    "\<forall>r c. (r, c) \<noteq> (1, 0) \<longrightarrow> cellAt (setCellState ?g 1 0 None) r c = cellAt ?g r c"
    using set rect old by simp_all
  from facts(3) have "cellAt (setCellState ?g 1 0 None) 0 1 = cellAt ?g 0 1"
    by simp
  with facts(1,2) rect old show ?thesis by simp
qed

text \<open>
  C4. Out of bounds (row below 0, row at or beyond the number of rows, col below 0, or
  col at or beyond the column count taken from row 0 or from the configuration),
  setCellState returns its argument unchanged and only writes one warning to the
  console; in particular at row -1 and at row numRows.
\<close>

theorem setCellState_out_of_bounds_noop:
  "(row < 0 \<or> int (length g) \<le> row \<or> col < 0 \<or> expectedNumCols g \<le> col
      \<longrightarrow> setCellState g row col newState = g
          \<and> setCellStateConsole g row col
              = [WarnOutOfBounds row col (int (length g)) (expectedNumCols g)])
   \<and> setCellState g (- 1) 0 newState = g
   \<and> setCellState g (int (length g)) 0 newState = g"
  by (simp add: setCellState_def setCellStateConsole_def outOfBounds_def)

theorem setCellState_out_of_bounds_noop_witness:
  "expectedNumCols [Some [Dead, Alive], Some [Alive]] \<le> 2
   \<and> setCellState [Some [Dead, Alive], Some [Alive]] 1 2 None
       = [Some [Dead, Alive], Some [Alive]]
   \<and> setCellStateConsole [Some [Dead, Alive], Some [Alive]] 1 2 = [WarnOutOfBounds 1 2 2 2]
   \<and> setCellState [Some [Dead, Alive], Some [Alive]] (- 1) 0 (Some Alive)
       = [Some [Dead, Alive], Some [Alive]]
   \<and> setCellState [Some [Dead, Alive], Some [Alive]] 2 0 (Some Alive)
       = [Some [Dead, Alive], Some [Alive]]"
  using setCellState_out_of_bounds_noop [of 1 "[Some [Dead, Alive], Some [Alive]]" 2 None]
    setCellState_out_of_bounds_noop [of 1 "[Some [Dead, Alive], Some [Alive]]" 2 "Some Alive"]
  by (simp add: expectedNumCols_def)

text \<open>
  C5, as the code has it. Whatever the input grid (short, long or missing rows),
  loadPattern returns a rectangular grid: every row is an array of exactly the
  expected number of columns. setCellState does so when the position is within
  bounds; out of bounds it returns its argument as it is, without normalising it.
\<close>

theorem normalized_results_rectangular:
  "isRectangular (nat (expectedNumCols g)) (loadPattern g p sr sc)
   \<and> length (loadPattern g p sr sc) = length g
   \<and> (\<not> outOfBounds g row col \<longrightarrow>
        isRectangular (nat (expectedNumCols g)) (setCellState g row col ns)
        \<and> length (setCellState g row col ns) = length g)
   \<and> (outOfBounds g row col \<longrightarrow> setCellState g row col ns = g)"
  by (simp add: isRectangular_loadPattern length_loadPattern isRectangular_setCellState
        length_setCellState) (simp add: setCellState_def)

theorem normalized_results_rectangular_witness:
  "\<not> outOfBounds [Some [Dead, Dead], None, Some [Alive]] 2 1
   \<and> isRectangular 2 (setCellState [Some [Dead, Dead], None, Some [Alive]] 2 1 None)
   \<and> isRectangular 2 (loadPattern [Some [Dead, Dead], None, Some [Alive]]
        \<lparr>name = ''dot'', data = [(0, 0)], width = 1, height = 1\<rparr> 0 0)
   \<and> outOfBounds [Some [Dead, Dead], None, Some [Alive]] 3 0
   \<and> setCellState [Some [Dead, Dead], None, Some [Alive]] 3 0 None
       = [Some [Dead, Dead], None, Some [Alive]]"
  using normalized_results_rectangular
      [where g = "[Some [Dead, Dead], None, Some [Alive]]" and row = 2 and col = 1
         and ns = None and p = "\<lparr>name = ''dot'', data = [(0, 0)], width = 1, height = 1\<rparr>"
         and sr = 0 and sc = 0]
    normalized_results_rectangular
      [where g = "[Some [Dead, Dead], None, Some [Alive]]" and row = 3 and col = 0
         and ns = None]
  by (simp add: outOfBounds_def expectedNumCols_def)

text \<open>
  C5 as stated fails for setCellState: called out of bounds on a grid with a short
  and a missing row, it returns that grid, which is not rectangular.
\<close>

theorem setCellState_ragged_counterexample:
  "expectedNumCols [Some [Dead, Dead], None, Some [Alive]] = 2
   \<and> \<not> isRectangular 2 (setCellState [Some [Dead, Dead], None, Some [Alive]] 3 0 None)"
  by (simp add: expectedNumCols_def setCellState_def outOfBounds_def isRectangular_def)

text \<open>
  C10. On a rectangular grid and an in-bounds position, toggling the same cell twice
  gives back the original grid.
\<close>

theorem toggle_twice_restores:
  assumes "isRectangular cols g" "0 \<le> row" "row < int (length g)" "0 \<le> col" "col < int cols"
  shows "setCellState (setCellState g row col None) row col None = g"
proof -
  have "nat row < length g" using assms(2,3) by simp
  then obtain cells where row: "g ! nat row = Some cells" and len: "length cells = cols"
    using isRectangular_nth [OF assms(1)] by blast
  define cells' where "cells' = cells[nat col := toggleCell (cells ! nat col)]"
  define g' where "g' = g[nat row := Some cells']"
  have i: "nat row < length g" "nat col < length cells"
    using assms len by auto
  have first: "setCellState g row col None = g'"
    by (simp add: setCellState_rectangular [OF assms row] g'_def cells'_def)
  have rect': "isRectangular cols g'"
    using assms(1) len by (simp add: g'_def cells'_def isRectangular_update)
  have row': "g' ! nat row = Some cells'"
    using i by (simp add: g'_def)
  have b': "row < int (length g')" using assms by (simp add: g'_def)
  have "setCellState g' row col None
      = g'[nat row := Some (cells'[nat col := toggleCell (cells' ! nat col)])]"
    using setCellState_rectangular [OF rect' assms(2) b' assms(4,5) row', of None] by simp
  also have "cells'[nat col := toggleCell (cells' ! nat col)] = cells"
    using i by (simp add: cells'_def toggleCell_twice)
  also have "g'[nat row := Some cells] = g"
    using row i by (simp add: g'_def list_update_same_conv)
  finally show ?thesis by (simp add: first)
qed

theorem toggle_twice_restores_witness:
  "isRectangular 2 [Some [Dead, Alive], Some [Alive, Dead]]
   \<and> setCellState (setCellState [Some [Dead, Alive], Some [Alive, Dead]] 0 1 None) 0 1 None
       = [Some [Dead, Alive], Some [Alive, Dead]]"
  using toggle_twice_restores
      [where g = "[Some [Dead, Alive], Some [Alive, Dead]]" and cols = 2 and row = 0
         and col = 1]
  by (simp add: isRectangular_def)

section \<open>Transition engine\<close>

subsection \<open>Neighbour counting and the rule\<close>

lemma smod_wrap:
  fixes x n :: int
  assumes "- 1 \<le> x" "0 < n"
  shows "(x + n) smod n = x mod n"
proof -
  have nonneg: "0 \<le> x + n" using assms by simp
  have "(x + n) smod n = (x + n) mod n"
  proof (cases "x + n = 0")
    case True
    then show ?thesis by simp
  next
    case False
    with nonneg have "0 < x + n" by simp
    then show ?thesis using assms(2) by (simp add: smod_int_alt_def)
  qed
  then show ?thesis by simp
qed

lemma count_step: "(if b then Suc n else n) = n + of_bool b"
  by simp

lemma length_filter_Cons: "length (filter P (x # xs)) = length (filter P xs) + of_bool (P x)"
  by simp

lemma countLiveNeighbors_spec:
  assumes "0 \<le> row" "0 \<le> col" "0 < nr" "0 < nc"
  shows "countLiveNeighbors g nr nc row col = spec_liveNeighbors g nr nc row col"
proof -
  have w: "(row + - 1 + nr) smod nr = (row + - 1) mod nr"
          "(row + 0 + nr) smod nr = (row + 0) mod nr"
          "(row + 1 + nr) smod nr = (row + 1) mod nr"
          "(col + - 1 + nc) smod nc = (col + - 1) mod nc"
          "(col + 0 + nc) smod nc = (col + 0) mod nc"
          "(col + 1 + nc) smod nc = (col + 1) mod nc"
    using assms by (simp_all only: smod_wrap)
  show ?thesis
    unfolding countLiveNeighbors_def spec_liveNeighbors_def spec_neighbors_def
      fold_simps Let_def list.map prod.case o_def id_def w length_filter_Cons
    by (simp add: count_step)
qed

lemma sequenceResults_map_Inr: "sequenceResults (map Inr xs) = Inr xs"
  by (induction xs) simp_all

lemma calculateNextGeneration_arrays:
  assumes "None \<notin> set g" "g \<noteq> []" "firstRowLength g \<noteq> 0"
  shows "calculateNextGeneration g =
     Inr (mapWithIndex
            (\<lambda>rowArray row.
               Some (mapWithIndex
                 (\<lambda>currentCellState col.
                    nextCellState currentCellState
                      (countLiveNeighbors g (int (length g)) (int (firstRowLength g))
                         (int row) (int col)))
                 (the rowArray)))
            g)"
proof -
  have "mapWithIndex
          (\<lambda>rowArray row.
             case rowArray of
               None \<Rightarrow> Inl TypeError
             | Some cells \<Rightarrow>
                 Inr (Some (mapWithIndex
                   (\<lambda>currentCellState col.
                      nextCellState currentCellState
                        (countLiveNeighbors g (int (length g)) (int (firstRowLength g))
                           (int row) (int col)))
                   cells)))
          g
      = map Inr (mapWithIndex
            (\<lambda>rowArray row.
               Some (mapWithIndex
                 (\<lambda>currentCellState col.
                    nextCellState currentCellState
                      (countLiveNeighbors g (int (length g)) (int (firstRowLength g))
                         (int row) (int col)))
                 (the rowArray)))
            g)"
  proof (rule nth_equalityI)
    fix i assume "i < length (mapWithIndex
          (\<lambda>rowArray row.
             case rowArray of
               None \<Rightarrow> Inl TypeError
             | Some cells \<Rightarrow>
                 Inr (Some (mapWithIndex
                   (\<lambda>currentCellState col.
                      nextCellState currentCellState
                        (countLiveNeighbors g (int (length g)) (int (firstRowLength g))
                           (int row) (int col)))
                   cells)))
          g)"
    then have i: "i < length g" by simp
    then have "g ! i \<noteq> None" using assms(1) by (metis nth_mem)
    then show "mapWithIndex
          (\<lambda>rowArray row.
             case rowArray of
               None \<Rightarrow> Inl TypeError
             | Some cells \<Rightarrow>
                 Inr (Some (mapWithIndex
                   (\<lambda>currentCellState col.
                      nextCellState currentCellState
                        (countLiveNeighbors g (int (length g)) (int (firstRowLength g))
                           (int row) (int col)))
                   cells)))
          g ! i = map Inr (mapWithIndex
            (\<lambda>rowArray row.
               Some (mapWithIndex
                 (\<lambda>currentCellState col.
                    nextCellState currentCellState
                      (countLiveNeighbors g (int (length g)) (int (firstRowLength g))
                         (int row) (int col)))
                 (the rowArray)))
            g) ! i"
      using i by (auto split: option.splits)
  qed simp
  then show ?thesis
    using assms(2,3) by (simp add: calculateNextGeneration_def Let_def sequenceResults_map_Inr)
qed

lemma isRectangular_arrays: "isRectangular cols g \<Longrightarrow> None \<notin> set g"
  by (auto simp: isRectangular_def list_all_iff)

lemma isRectangular_firstRowLength:
  "isRectangular cols g \<Longrightarrow> g \<noteq> [] \<Longrightarrow> firstRowLength g = cols"
  by (cases g) (auto simp: isRectangular_def firstRowLength_def split: option.splits)

lemma nextCellState_alive_iff:
  "nextCellState v n = Alive \<longleftrightarrow> (v = Alive \<and> (n = 2 \<or> n = 3)) \<or> (v = Dead \<and> n = 3)"
  by (cases v) (auto simp: nextCellState_def)

lemma corner_counts_opposite_corner:
  assumes "0 < nr" "0 < nc" "cellAt g (nr - 1) (nc - 1) = Some Alive"
  shows "1 \<le> countLiveNeighbors g nr nc 0 0"
proof -
  have "(nr - 1, nc - 1) \<in> set (spec_neighbors nr nc 0 0)"
    using assms(1,2) by (simp add: spec_neighbors_def zmod_minus1)
  then have "(nr - 1, nc - 1)
      \<in> set (filter (\<lambda>(r', c'). cellAt g r' c' = Some Alive) (spec_neighbors nr nc 0 0))"
    using assms(3) by simp
  then have "0 < spec_liveNeighbors g nr nc 0 0"
    unfolding spec_liveNeighbors_def by (simp only: length_pos_if_in_set)
  then show ?thesis
    using assms(1,2) by (simp add: countLiveNeighbors_spec)
qed

lemma calculateNextGeneration_total:
  assumes "None \<notin> set g"
  shows "\<exists>g'. calculateNextGeneration g = Inr g'"
proof (cases "g = [] \<or> firstRowLength g = 0")
  case True
  then show ?thesis by (auto simp: calculateNextGeneration_def)
next
  case False
  then show ?thesis using calculateNextGeneration_arrays [OF assms] by simp
qed

text \<open>
  C1. For a rectangular grid with at least one row and one column and a cell (r, c)
  of it, calculateNextGeneration returns a grid of the same shape whose cell (r, c)
  is alive exactly when the current cell is alive with 2 or 3 live neighbours or dead
  with exactly 3, the neighbours being the 8 surrounding positions with row and
  column indices taken modulo the number of rows and columns. In particular the loop
  at cell (0, 0) counts a live cell at (numRows - 1, numCols - 1).
\<close>

theorem nextGeneration_rule:
  assumes "isRectangular cols g" "g \<noteq> []" "0 < cols"
    and "0 \<le> r" "r < int (length g)" "0 \<le> c" "c < int cols"
  shows "\<exists>g'. calculateNextGeneration g = Inr g'
      \<and> length g' = length g \<and> isRectangular cols g'
      \<and> (cellAt g' r c = Some Alive \<longleftrightarrow>
            (cellAt g r c = Some Alive
               \<and> (spec_liveNeighbors g (int (length g)) (int cols) r c = 2
                  \<or> spec_liveNeighbors g (int (length g)) (int cols) r c = 3))
            \<or> (cellAt g r c = Some Dead
               \<and> spec_liveNeighbors g (int (length g)) (int cols) r c = 3))
      \<and> (cellAt g' r c = Some Alive \<or> cellAt g' r c = Some Dead)
      \<and> (cellAt g (int (length g) - 1) (int cols - 1) = Some Alive
            \<longrightarrow> 1 \<le> countLiveNeighbors g (int (length g)) (int cols) 0 0)"
proof -
  define g' where "g' = mapWithIndex
            (\<lambda>rowArray row.
               Some (mapWithIndex
                 (\<lambda>currentCellState col.
                    nextCellState currentCellState
                      (countLiveNeighbors g (int (length g)) (int cols) (int row) (int col)))
                 (the rowArray)))
            g"
  have frl: "firstRowLength g = cols"
    by (rule isRectangular_firstRowLength [OF assms(1,2)])
  have calc: "calculateNextGeneration g = Inr g'"
    using calculateNextGeneration_arrays [OF isRectangular_arrays [OF assms(1)] assms(2)]
      assms(3) by (simp add: frl g'_def)
  have i: "nat r < length g" using assms(4,5) by simp
  then obtain cells where row: "g ! nat r = Some cells" and len: "length cells = cols"
    using isRectangular_nth [OF assms(1)] by blast
  have j: "nat c < length cells" using assms(6,7) len by simp
  have old: "cellAt g r c = Some (cells ! nat c)"
    using assms len by (simp add: cellAt_row [OF _ _ row])
  have n: "countLiveNeighbors g (int (length g)) (int cols) r c
      = spec_liveNeighbors g (int (length g)) (int cols) r c"
    using assms by (intro countLiveNeighbors_spec) simp_all
  have new: "cellAt g' r c
      = Some (nextCellState (cells ! nat c)
                (spec_liveNeighbors g (int (length g)) (int cols) r c))"
    using assms i j row len by (simp add: g'_def cellAt_def n [symmetric])
  have "length (the (g ! k)) = cols" if "k < length g" for k
    using isRectangular_nth [OF assms(1) that] by auto
  then have shape: "length g' = length g" "isRectangular cols g'"
    by (simp_all add: g'_def isRectangular_def list_all_length)
  have corner: "cellAt g (int (length g) - 1) (int cols - 1) = Some Alive
      \<longrightarrow> 1 \<le> countLiveNeighbors g (int (length g)) (int cols) 0 0"
  proof
    assume "cellAt g (int (length g) - 1) (int cols - 1) = Some Alive"
    moreover have "0 < int (length g)" "0 < int cols" using assms(2,3) by simp_all
    ultimately show "1 \<le> countLiveNeighbors g (int (length g)) (int cols) 0 0"
      by (intro corner_counts_opposite_corner)
  qed
  have dichotomy: "v = Alive \<or> v = Dead" for v :: CellState
    by (cases v) simp_all
  have rule: "cellAt g' r c = Some Alive \<longleftrightarrow>
            (cellAt g r c = Some Alive
               \<and> (spec_liveNeighbors g (int (length g)) (int cols) r c = 2
                  \<or> spec_liveNeighbors g (int (length g)) (int cols) r c = 3))
            \<or> (cellAt g r c = Some Dead
               \<and> spec_liveNeighbors g (int (length g)) (int cols) r c = 3)"
    by (simp add: new old nextCellState_alive_iff)
  have defined: "cellAt g' r c = Some Alive \<or> cellAt g' r c = Some Dead"
    using dichotomy by (simp add: new)
  from calc shape rule defined corner show ?thesis
    by blast
qed

theorem nextGeneration_rule_witness:
  "isRectangular 3 [Some [Alive, Dead, Dead], Some [Dead, Alive, Dead], Some [Dead, Dead, Alive]]
   \<and> spec_liveNeighbors
         [Some [Alive, Dead, Dead], Some [Dead, Alive, Dead], Some [Dead, Dead, Alive]] 3 3 1 1 = 2
   \<and> (\<exists>g'. calculateNextGeneration
               [Some [Alive, Dead, Dead], Some [Dead, Alive, Dead], Some [Dead, Dead, Alive]]
             = Inr g'
           \<and> cellAt g' 1 1 = Some Alive)
   \<and> 1 \<le> countLiveNeighbors
            [Some [Alive, Dead, Dead], Some [Dead, Alive, Dead], Some [Dead, Dead, Alive]]
            3 3 0 0"
proof -
  let ?g = "[Some [Alive, Dead, Dead], Some [Dead, Alive, Dead], Some [Dead, Dead, Alive]]"
  have rect: "isRectangular 3 ?g"
    by (simp add: isRectangular_def)
  have n: "spec_liveNeighbors ?g 3 3 1 1 = 2"
    by (simp add: spec_liveNeighbors_def spec_neighbors_def cellAt_def)
  have old: "cellAt ?g 1 1 = Some Alive" "cellAt ?g 2 2 = Some Alive"
    by (simp_all add: cellAt_def)
  show ?thesis
    using nextGeneration_rule [where g = ?g and cols = 3 and r = 1 and c = 1] rect n old
    by auto
qed

text \<open>
  C9. A grid with no rows, or whose first row has length 0, yields the empty grid.
\<close>

theorem empty_grid_next_generation:
  "(length g = 0 \<or> firstRowLength g = 0 \<longrightarrow> calculateNextGeneration g = Inr [])
   \<and> calculateNextGeneration [] = Inr []
   \<and> calculateNextGeneration (Some [] # rest) = Inr []"
  by (simp add: calculateNextGeneration_def firstRowLength_def)

theorem empty_grid_next_generation_witness:
  "firstRowLength [Some [], Some [Alive]] = 0
   \<and> calculateNextGeneration [Some [], Some [Alive]] = Inr []"
  using empty_grid_next_generation [where g = "[Some [], Some [Alive]]"]
  by (simp add: firstRowLength_def)

section \<open>Session state machine\<close>

lemma simulationInterval_stopSimulation:
  "simulationInterval (gameState (stopSimulation s)) = simulationInterval (gameState s)"
  by (simp add: stopSimulation_def clearInterval_def Let_def split: option.splits)

lemma simulationInterval_startSimulation:
  "simulationInterval (gameState (startSimulation s)) = simulationInterval (gameState s)"
  by (simp add: startSimulation_def setInterval_def clearInterval_def Let_def
        split: option.splits)

lemma simulationInterval_handleSpeedChange:
  "simulationInterval (gameState (handleSpeedChange interval s)) = interval"
  by (simp add: handleSpeedChange_def Let_def simulationInterval_startSimulation
        simulationInterval_stopSimulation)

lemma stopSimulation_effect:
  "status (gameState (stopSimulation s))
     = (if status (gameState s) = Running then Paused else status (gameState s))
   \<and> numRows (gameState (stopSimulation s)) = numRows (gameState s)
   \<and> numCols (gameState (stopSimulation s)) = numCols (gameState s)
   \<and> (status (gameState s) = Running \<and> timerId (gameState s) = Some ident \<longrightarrow>
        timerId (gameState (stopSimulation s)) = None
        \<and> ident \<notin> fst ` set (activeIntervals (stopSimulation s))
        \<and> (fst ` set (activeIntervals s) \<subseteq> {ident}
              \<longrightarrow> activeIntervals (stopSimulation s) = []))"
  by (auto simp: stopSimulation_def clearInterval_def Let_def filter_empty_conv
        split: option.splits)

lemma reset_commands_result:
  assumes "numRows (gameState s) \<le> maxArrayLength"
    and "0 \<le> numCols (gameState s)" "numCols (gameState s) \<le> maxArrayLength"
  shows "(\<exists>g. createRandomGrid (numRows (gameState s)) (numCols (gameState s)) draw = Inr g
            \<and> randomizeGrid draw s
                = Inr ((stopSimulation s)\<lparr>gameState := (gameState (stopSimulation s))
                         \<lparr>grid := g, generation := 0, status := Paused\<rparr>\<rparr>))
     \<and> (\<exists>g. createEmptyGrid (numRows (gameState s)) (numCols (gameState s)) = Inr g
            \<and> clearGrid s
                = Inr ((stopSimulation s)\<lparr>gameState := (gameState (stopSimulation s))
                         \<lparr>grid := g, generation := 0, status := Paused\<rparr>\<rparr>))
     \<and> (\<exists>g. createEmptyGrid (numRows (gameState s)) (numCols (gameState s)) = Inr g
            \<and> handleLoadPattern p s
                = Inr ((stopSimulation s)\<lparr>gameState := (gameState (stopSimulation s))
                         \<lparr>grid := loadPattern g p
                              ((numRows (gameState s) - height p) div 2)
                              ((numCols (gameState s) - width p) div 2),
                          generation := 0, status := Paused\<rparr>\<rparr>))
     \<and> (status (gameState s) = Running \<and> timerId (gameState s) = Some ident \<longrightarrow>
          timerId (gameState (stopSimulation s)) = None
          \<and> ident \<notin> fst ` set (activeIntervals (stopSimulation s))
          \<and> (fst ` set (activeIntervals s) \<subseteq> {ident}
                \<longrightarrow> activeIntervals (stopSimulation s) = []))"
  using assms stopSimulation_effect [of s ident]
  by (simp add: randomizeGrid_def clearGrid_def handleLoadPattern_def Let_def
        createRandomGrid_def createEmptyGrid_def)

text \<open>
  C6. The step button's command changes nothing unless the status is paused, so while
  running it neither advances the generation counter nor changes the grid. While
  paused (the grid holding arrays only, as its type says) it replaces the grid by
  its next generation and increments the generation counter by exactly 1.
\<close>

theorem step_only_while_paused:
  "(status (gameState s) \<noteq> Paused \<longrightarrow> stepButtonClick s = Inr s)
   \<and> (status (gameState s) = Running \<longrightarrow> stepButtonClick s = Inr s)
   \<and> (status (gameState s) = Paused \<and> None \<notin> set (grid (gameState s)) \<longrightarrow>
        (\<exists>s'. stepButtonClick s = Inr s'
           \<and> generation (gameState s') = generation (gameState s) + 1
           \<and> calculateNextGeneration (grid (gameState s)) = Inr (grid (gameState s'))
           \<and> status (gameState s') = Paused))"
proof -
  have "\<exists>s'. stepButtonClick s = Inr s'
           \<and> generation (gameState s') = generation (gameState s) + 1
           \<and> calculateNextGeneration (grid (gameState s)) = Inr (grid (gameState s'))
           \<and> status (gameState s') = Paused"
    if paused: "status (gameState s) = Paused" and rows: "None \<notin> set (grid (gameState s))"
  proof -
    obtain g' where "calculateNextGeneration (grid (gameState s)) = Inr g'"
      using calculateNextGeneration_total [OF rows] by blast
    then show ?thesis
      using paused by (simp add: stepButtonClick_def stepGeneration_def)
  qed
  then show ?thesis
    by (auto simp: stepButtonClick_def)
qed

theorem step_only_while_paused_witness:
  "stepButtonClick \<lparr>gameState = \<lparr>grid = [Some [Dead, Alive], Some [Alive, Alive]], numRows = 2, numCols = 2,
           generation = 7, status = Running, simulationInterval = 200, timerId = Some 3,
           isDrawing = False, drawMode = Alive\<rparr>,
         activeIntervals = [(3, 200)], nextIntervalId = 4\<rparr> = Inr \<lparr>gameState = \<lparr>grid = [Some [Dead, Alive], Some [Alive, Alive]], numRows = 2, numCols = 2,
           generation = 7, status = Running, simulationInterval = 200, timerId = Some 3,
           isDrawing = False, drawMode = Alive\<rparr>,
         activeIntervals = [(3, 200)], nextIntervalId = 4\<rparr>
   \<and> (\<exists>s'. stepButtonClick \<lparr>gameState = \<lparr>grid = [Some [Dead, Alive], Some [Alive, Alive]], numRows = 2, numCols = 2,
           generation = 7, status = Paused, simulationInterval = 200, timerId = None,
           isDrawing = False, drawMode = Alive\<rparr>,
         activeIntervals = [], nextIntervalId = 4\<rparr> = Inr s' \<and> generation (gameState s') = 8
          \<and> status (gameState s') = Paused)"
  using step_only_while_paused [where s = "\<lparr>gameState = \<lparr>grid = [Some [Dead, Alive], Some [Alive, Alive]], numRows = 2, numCols = 2,
           generation = 7, status = Running, simulationInterval = 200, timerId = Some 3,
           isDrawing = False, drawMode = Alive\<rparr>,
         activeIntervals = [(3, 200)], nextIntervalId = 4\<rparr>"]
    step_only_while_paused [where s = "\<lparr>gameState = \<lparr>grid = [Some [Dead, Alive], Some [Alive, Alive]], numRows = 2, numCols = 2,
           generation = 7, status = Paused, simulationInterval = 200, timerId = None,
           isDrawing = False, drawMode = Alive\<rparr>,
         activeIntervals = [], nextIntervalId = 4\<rparr>"]
  by simp blast

text \<open>
  C7, as the code has it. The speed command stores the interval it is given, whatever
  it is; nothing clamps or rejects it. The interval that the speed slider's handler
  computes from a slider value between the configured minimum and maximum lies
  between them, and is positive.
\<close>

theorem setSpeed_stores_interval:
  "simulationInterval (gameState (handleSpeedChange interval s)) = interval
   \<and> (minSimulationIntervalMs \<le> sliderValue \<and> sliderValue \<le> maxSimulationIntervalMs \<longrightarrow>
        simulationInterval (gameState (speedSliderInput sliderValue s))
          = maxSimulationIntervalMs - sliderValue + minSimulationIntervalMs
        \<and> minSimulationIntervalMs \<le> simulationInterval (gameState (speedSliderInput sliderValue s))
        \<and> simulationInterval (gameState (speedSliderInput sliderValue s)) \<le> maxSimulationIntervalMs
        \<and> 0 < simulationInterval (gameState (speedSliderInput sliderValue s)))"
  by (simp add: simulationInterval_handleSpeedChange speedSliderInput_def
        minSimulationIntervalMs_def maxSimulationIntervalMs_def)

theorem setSpeed_stores_interval_witness:
  "simulationInterval (gameState (handleSpeedChange 300 \<lparr>gameState = \<lparr>grid = [Some [Dead, Alive], Some [Alive, Alive]], numRows = 2, numCols = 2,
           generation = 7, status = Running, simulationInterval = 200, timerId = Some 3,
           isDrawing = False, drawMode = Alive\<rparr>,
         activeIntervals = [(3, 200)], nextIntervalId = 4\<rparr>)) = 300
   \<and> minSimulationIntervalMs \<le> 250 \<and> 250 \<le> maxSimulationIntervalMs
   \<and> simulationInterval (gameState (speedSliderInput 250 \<lparr>gameState = \<lparr>grid = [Some [Dead, Alive], Some [Alive, Alive]], numRows = 2, numCols = 2,
           generation = 7, status = Running, simulationInterval = 200, timerId = Some 3,
           isDrawing = False, drawMode = Alive\<rparr>,
         activeIntervals = [(3, 200)], nextIntervalId = 4\<rparr>)) = 800"
  using setSpeed_stores_interval [where s = "\<lparr>gameState = \<lparr>grid = [Some [Dead, Alive], Some [Alive, Alive]], numRows = 2, numCols = 2,
           generation = 7, status = Running, simulationInterval = 200, timerId = Some 3,
           isDrawing = False, drawMode = Alive\<rparr>,
         activeIntervals = [(3, 200)], nextIntervalId = 4\<rparr>" and interval = 300 and sliderValue = 250]
  by (simp add: minSimulationIntervalMs_def maxSimulationIntervalMs_def)

text \<open>
  C7 as stated fails: the speed command called with -10 stores -10, which is neither
  positive nor at least the configured minimum.
\<close>

theorem setSpeed_unclamped_counterexample:
  "simulationInterval (gameState (handleSpeedChange (- 10) \<lparr>gameState = \<lparr>grid = [Some [Dead, Alive], Some [Alive, Alive]], numRows = 2, numCols = 2,
           generation = 7, status = Paused, simulationInterval = 200, timerId = None,
           isDrawing = False, drawMode = Alive\<rparr>,
         activeIntervals = [], nextIntervalId = 4\<rparr>)) = - 10
   \<and> \<not> minSimulationIntervalMs \<le> - 10"
  by (simp add: handleSpeedChange_def minSimulationIntervalMs_def)

text \<open>
  C8. With grid dimensions that are valid array lengths, each of randomize, clear and
  load-pattern returns a session whose status is paused and whose generation counter
  is 0, with the grid replaced by a new random grid, an empty grid, or the pattern
  stamped on an empty grid; if the session was running, its interval timer has been
  cleared, and no timer is left when that was the only one.
\<close>

theorem reset_commands_pause:
  assumes "numRows (gameState s) \<le> maxArrayLength"
    and "0 \<le> numCols (gameState s)" "numCols (gameState s) \<le> maxArrayLength"
  shows "(\<exists>s'. randomizeGrid draw s = Inr s'
            \<and> status (gameState s') = Paused \<and> generation (gameState s') = 0
            \<and> createRandomGrid (numRows (gameState s)) (numCols (gameState s)) draw
                = Inr (grid (gameState s'))
            \<and> (status (gameState s) = Running \<and> timerId (gameState s) = Some ident \<longrightarrow>
                 timerId (gameState s') = None \<and> ident \<notin> fst ` set (activeIntervals s')
                 \<and> (fst ` set (activeIntervals s) \<subseteq> {ident}
                       \<longrightarrow> activeIntervals s' = [])))
     \<and> (\<exists>s'. clearGrid s = Inr s'
            \<and> status (gameState s') = Paused \<and> generation (gameState s') = 0
            \<and> createEmptyGrid (numRows (gameState s)) (numCols (gameState s))
                = Inr (grid (gameState s'))
            \<and> (status (gameState s) = Running \<and> timerId (gameState s) = Some ident \<longrightarrow>
                 timerId (gameState s') = None \<and> ident \<notin> fst ` set (activeIntervals s')
                 \<and> (fst ` set (activeIntervals s) \<subseteq> {ident}
                       \<longrightarrow> activeIntervals s' = [])))
     \<and> (\<exists>s' cleared. handleLoadPattern p s = Inr s'
            \<and> status (gameState s') = Paused \<and> generation (gameState s') = 0
            \<and> createEmptyGrid (numRows (gameState s)) (numCols (gameState s)) = Inr cleared
            \<and> grid (gameState s')
                = loadPattern cleared p
                    ((numRows (gameState s) - height p) div 2)
                    ((numCols (gameState s) - width p) div 2)
            \<and> (status (gameState s) = Running \<and> timerId (gameState s) = Some ident \<longrightarrow>
                 timerId (gameState s') = None \<and> ident \<notin> fst ` set (activeIntervals s')
                 \<and> (fst ` set (activeIntervals s) \<subseteq> {ident}
                       \<longrightarrow> activeIntervals s' = [])))"
proof -
  define cleared_timer where "cleared_timer = (\<lambda>s' :: Session.
    status (gameState s) = Running \<and> timerId (gameState s) = Some ident \<longrightarrow>
      timerId (gameState s') = None \<and> ident \<notin> fst ` set (activeIntervals s')
      \<and> (fst ` set (activeIntervals s) \<subseteq> {ident} \<longrightarrow> activeIntervals s' = []))"
  note result = reset_commands_result [OF assms, of draw p ident]
  have timer: "cleared_timer (stopSimulation s)"
    using result by (simp add: cleared_timer_def)
  have keep: "cleared_timer
        (s'\<lparr>gameState := (gameState s')\<lparr>grid := g, generation := 0, status := Paused\<rparr>\<rparr>)
      = cleared_timer s'" for s' g
    by (simp add: cleared_timer_def)
  have random: "\<exists>s'. randomizeGrid draw s = Inr s'
            \<and> status (gameState s') = Paused \<and> generation (gameState s') = 0
            \<and> createRandomGrid (numRows (gameState s)) (numCols (gameState s)) draw
                = Inr (grid (gameState s'))
            \<and> cleared_timer s'"
    using result [THEN conjunct1] timer by (auto simp: keep)
  have clear: "\<exists>s'. clearGrid s = Inr s'
            \<and> status (gameState s') = Paused \<and> generation (gameState s') = 0
            \<and> createEmptyGrid (numRows (gameState s)) (numCols (gameState s))
                = Inr (grid (gameState s'))
            \<and> cleared_timer s'"
    using result [THEN conjunct2, THEN conjunct1] timer by (auto simp: keep)
  have load: "\<exists>s' cleared. handleLoadPattern p s = Inr s'
            \<and> status (gameState s') = Paused \<and> generation (gameState s') = 0
            \<and> createEmptyGrid (numRows (gameState s)) (numCols (gameState s)) = Inr cleared
            \<and> grid (gameState s')
                = loadPattern cleared p
                    ((numRows (gameState s) - height p) div 2)
                    ((numCols (gameState s) - width p) div 2)
            \<and> cleared_timer s'"
    using result [THEN conjunct2, THEN conjunct2, THEN conjunct1] timer by (auto simp: keep)
  from random clear load show ?thesis
    unfolding cleared_timer_def by (intro conjI)
qed

theorem reset_commands_pause_witness:
  "(\<exists>s'. randomizeGrid (\<lambda>r c. r = c) \<lparr>gameState = \<lparr>grid = [Some [Dead, Alive], Some [Alive, Alive]], numRows = 2, numCols = 2,
           generation = 7, status = Running, simulationInterval = 200, timerId = Some 3,
           isDrawing = False, drawMode = Alive\<rparr>,
         activeIntervals = [(3, 200)], nextIntervalId = 4\<rparr> = Inr s'
        \<and> status (gameState s') = Paused \<and> generation (gameState s') = 0
        \<and> timerId (gameState s') = None \<and> activeIntervals s' = [])
   \<and> (\<exists>s'. clearGrid \<lparr>gameState = \<lparr>grid = [Some [Dead, Alive], Some [Alive, Alive]], numRows = 2, numCols = 2,
           generation = 7, status = Running, simulationInterval = 200, timerId = Some 3,
           isDrawing = False, drawMode = Alive\<rparr>,
         activeIntervals = [(3, 200)], nextIntervalId = 4\<rparr> = Inr s'
        \<and> status (gameState s') = Paused \<and> generation (gameState s') = 0
        \<and> timerId (gameState s') = None \<and> activeIntervals s' = [])
   \<and> (\<exists>s'. handleLoadPattern \<lparr>name = ''dot'', data = [(0, 0)], width = 1, height = 1\<rparr>
              \<lparr>gameState = \<lparr>grid = [Some [Dead, Alive], Some [Alive, Alive]], numRows = 2, numCols = 2,
           generation = 7, status = Paused, simulationInterval = 200, timerId = None,
           isDrawing = False, drawMode = Alive\<rparr>,
         activeIntervals = [], nextIntervalId = 4\<rparr> = Inr s'
        \<and> status (gameState s') = Paused \<and> generation (gameState s') = 0)"
  using reset_commands_pause [where s = "\<lparr>gameState = \<lparr>grid = [Some [Dead, Alive], Some [Alive, Alive]], numRows = 2, numCols = 2,
           generation = 7, status = Running, simulationInterval = 200, timerId = Some 3,
           isDrawing = False, drawMode = Alive\<rparr>,
         activeIntervals = [(3, 200)], nextIntervalId = 4\<rparr>" and draw = "\<lambda>r c. r = c" and ident = 3]
    reset_commands_pause [where s = "\<lparr>gameState = \<lparr>grid = [Some [Dead, Alive], Some [Alive, Alive]], numRows = 2, numCols = 2,
           generation = 7, status = Paused, simulationInterval = 200, timerId = None,
           isDrawing = False, drawMode = Alive\<rparr>,
         activeIntervals = [], nextIntervalId = 4\<rparr>"
      and p = "\<lparr>name = ''dot'', data = [(0, 0)], width = 1, height = 1\<rparr>"]
  by (simp add: maxArrayLength_def) blast

end
